theory Spec2Isabelle
  imports Main
begin

section \<open>JavaScript values\<close>

text \<open>
  The controller reads its input from \<^verbatim>\<open>req.body\<close>, \<^verbatim>\<open>req.query\<close>, \<^verbatim>\<open>req.params\<close> and
  \<^verbatim>\<open>req.user\<close>, all dynamically typed. A value is one of the JSON shapes or
  \<^verbatim>\<open>undefined\<close> (a property that is not there). Numbers are modelled as integers:
  the controller only tests them for being zero and adds durations, and floating-point
  rounding is outside the model.
\<close>

datatype jsval =
    JUndefined
  | JNull
  | JBool bool
  | JNum int
  | JStr string
  | JArr "jsval list"
  | JObj "(string \<times> jsval) list"

text \<open>ToBoolean: what \<^verbatim>\<open>!v\<close>, \<^verbatim>\<open>v || w\<close> and \<^verbatim>\<open>v ? a : b\<close> test.\<close>

fun truthy :: "jsval \<Rightarrow> bool" where
  "truthy JUndefined = False"
| "truthy JNull = False"
| "truthy (JBool b) = b"
| "truthy (JNum n) = (n \<noteq> 0)"
| "truthy (JStr s) = (s \<noteq> [])"
| "truthy (JArr xs) = True"
| "truthy (JObj kvs) = True"

text \<open>\<^verbatim>\<open>a || b\<close>\<close>

definition jsOr :: "jsval \<Rightarrow> jsval \<Rightarrow> jsval" where
  "jsOr a b = (if truthy a then a else b)"

text \<open>
  \<^verbatim>\<open>xs.includes(v)\<close> for an array of string literals: SameValueZero coincides with
  equality of values on primitives, and no array or object is equal to a string.
\<close>

definition jsIncludes :: "jsval list \<Rightarrow> jsval \<Rightarrow> bool" where
  "jsIncludes xs v = (v \<in> set xs)"

text \<open>\<^verbatim>\<open>xs.join(sep)\<close> on an array of strings.\<close>

fun join :: "string \<Rightarrow> string list \<Rightarrow> string" where
  "join sep [] = []"
| "join sep [x] = x"
| "join sep (x # y # ys) = x @ sep @ join sep (y # ys)"

text \<open>Decimal digits of a number, for ToString.\<close>

fun digitsOf :: "nat \<Rightarrow> string" where
  "digitsOf n =
     (if n < 10 then [char_of (48 + n)]
      else digitsOf (n div 10) @ [char_of (48 + n mod 10)])"

definition showInt :: "int \<Rightarrow> string" where
  "showInt i = (if i < 0 then CHR ''-'' # digitsOf (nat (- i)) else digitsOf (nat i))"

text \<open>
  ToString, as a template literal and the \<^verbatim>\<open>RegExp\<close> constructor apply it. Inside an
  array, \<^verbatim>\<open>null\<close> and \<^verbatim>\<open>undefined\<close> print as the empty string.
\<close>

fun jsToString :: "jsval \<Rightarrow> string"
  and elemStrings :: "jsval list \<Rightarrow> string list" where
  "jsToString JUndefined = ''undefined''"
| "jsToString JNull = ''null''"
| "jsToString (JBool b) = (if b then ''true'' else ''false'')"
| "jsToString (JNum n) = showInt n"
| "jsToString (JStr s) = s"
| "jsToString (JArr xs) = join '','' (elemStrings xs)"
| "jsToString (JObj kvs) = ''[object Object]''"
| "elemStrings [] = []"
| "elemStrings (JUndefined # xs) = [] # elemStrings xs"
| "elemStrings (JNull # xs) = [] # elemStrings xs"
| "elemStrings (x # xs) = jsToString x # elemStrings xs"

section \<open>Object identifiers\<close>

text \<open>
  Mongoose's \<^verbatim>\<open>isValidObjectId\<close> and the cast that \<^verbatim>\<open>findById\<close> applies are library
  code. An identifier is kept in its canonical form, 24 lower-case hexadecimal digits; a
  string is cast when it has 24 hexadecimal digits (in either case) or 12 characters
  (the 12 bytes themselves). The identifiers of a request are strings or absent, and no
  other value is cast.
\<close>

type_synonym objectId = string

definition isHexDigit :: "char \<Rightarrow> bool" where
  "isHexDigit c = (c \<in> set ''0123456789abcdefABCDEF'')"

definition toLowerAscii :: "char \<Rightarrow> char" where
  "toLowerAscii c =
     (let n = (of_char c :: nat) in if 65 \<le> n \<and> n \<le> 90 then char_of (n + 32) else c)"

definition hexOfNibble :: "nat \<Rightarrow> char" where
  "hexOfNibble n = ''0123456789abcdef'' ! (n mod 16)"

definition hexOfChar :: "char \<Rightarrow> string" where
  "hexOfChar c = (let n = (of_char c :: nat) in [hexOfNibble (n div 16), hexOfNibble n])"

fun castObjectId :: "jsval \<Rightarrow> objectId option" where
  "castObjectId (JStr s) =
     (if length s = 24 \<and> list_all isHexDigit s then Some (map toLowerAscii s)
      else if length s = 12 then Some (concat (map hexOfChar s))
      else None)"
| "castObjectId v = None"

definition isValidObjectId :: "jsval \<Rightarrow> bool" where
  "isValidObjectId v = (castObjectId v \<noteq> None)"

section \<open>Documents and the store\<close>

text \<open>
  Modelled from the spec: the schema files (\<^verbatim>\<open>models/user.model.js\<close>,
  \<^verbatim>\<open>employeeCTC.model.js\<close>, \<^verbatim>\<open>leaveApplication.model.js\<close>, \<^verbatim>\<open>attendance.model.js\<close>) are
  not among the sources. The fields are the ones the controller reads and writes and the
  spec's data model lists; a new employee record has role \<^verbatim>\<open>employee\<close> and
  \<^verbatim>\<open>totalPerformance\<close> 0. A document keeps the values it was given (the casts of the
  schema are not modelled), and a field that is not set reads as \<^verbatim>\<open>undefined\<close>.
\<close>

record profile =
  firstName :: jsval
  lastName :: jsval
  email :: jsval
  position :: jsval
  joiningDate :: jsval
  role :: jsval

record user = profile +
  uid :: objectId
  password :: jsval
  totalPerformance :: int

record ctcAllowances =
  housingAllowance :: jsval
  transportAllowance :: jsval
  mealAllowance :: jsval

record ctcBonuses =
  performanceBonus :: jsval
  yearEndBonus :: jsval

record ctcDeductions =
  tax :: jsval
  healthInsurance :: jsval
  providentFund :: jsval

record ctcComponents =
  allowances :: ctcAllowances
  bonuses :: ctcBonuses
  deductions :: ctcDeductions

record ctcFields =
  annualCTC :: jsval
  monthlyInHand :: jsval
  otherComponents :: ctcComponents

record employeeCTC = ctcFields +
  ctcId :: objectId
  employeeId :: objectId
  effectiveDate :: jsval

record leaveApplication =
  leaveId :: objectId
  applicantId :: objectId
  status :: jsval
  hrComments :: jsval

text \<open>
  An attendance entry: the employee, the instant of the entry (milliseconds since the
  epoch) and the hours worked, when the entry has them.
\<close>

record attendance =
  userId :: objectId
  date :: int
  duration :: "int option"

text \<open>The four collections, each in the order the store returns its documents.\<close>

record store =
  users :: "user list"
  ctcs :: "employeeCTC list"
  leaveApplications :: "leaveApplication list"
  attendances :: "attendance list"

section \<open>The environment of a request\<close>

text \<open>What reaches a \<^verbatim>\<open>catch\<close> block.\<close>

datatype thrown = CastError | ValidationError | IllegalArguments | SyntaxError

text \<open>
  The collaborators the controller calls and the sources do not define: the salted hash
  of bcryptjs on a string, the identifier the driver gives the next inserted document,
  whether the store refuses a write (schema validators, casts, unique indexes: the
  schemas are not among the sources), and the regular-expression engine on the patterns
  that are not modelled below.
\<close>

record env =
  bcryptDigest :: "string \<Rightarrow> string"
  newObjectId :: "store \<Rightarrow> objectId"
  rejectsUserCreate :: "user list \<Rightarrow> user \<Rightarrow> bool"
  rejectsUserUpdate :: "user list \<Rightarrow> objectId \<Rightarrow> profile \<Rightarrow> bool"
  rejectsCTCCreate :: "employeeCTC \<Rightarrow> bool"
  rejectsCTCUpsert :: "objectId \<Rightarrow> ctcFields \<Rightarrow> bool"
  rejectsLeaveSave :: "leaveApplication \<Rightarrow> bool"
  regexOther :: "string \<Rightarrow> (string \<Rightarrow> bool) option"

text \<open>
  A request: the role of the principal (\<^verbatim>\<open>req.user.role\<close>), and the three objects
  \<^verbatim>\<open>req.params\<close>, \<^verbatim>\<open>req.query\<close> and \<^verbatim>\<open>req.body\<close>, each read by property name
  (\<^verbatim>\<open>undefined\<close> for a property that is absent).
\<close>

record request =
  userRole :: jsval
  params :: "string \<Rightarrow> jsval"
  query :: "string \<Rightarrow> jsval"
  body :: "string \<Rightarrow> jsval"

text \<open>An object literal, read by property name.\<close>

definition jsObject :: "(string \<times> jsval) list \<Rightarrow> string \<Rightarrow> jsval" where
  "jsObject kvs k = (case map_of kvs k of None \<Rightarrow> JUndefined | Some v \<Rightarrow> v)"

section \<open>Responses\<close>

text \<open>
  Modelled from the spec: \<^verbatim>\<open>errorHandler\<close> (\<^verbatim>\<open>utils/index.js\<close>, not among the sources)
  builds the error \<^verbatim>\<open>{statusCode, message}\<close> that \<^verbatim>\<open>next\<close> hands to the error path.
\<close>

datatype error = Error (statusCode: nat) (message: string)

definition errorHandler :: "nat \<Rightarrow> string \<Rightarrow> error" where
  "errorHandler code msg = Error code msg"

text \<open>The object \<^verbatim>\<open>user\<close> of the add-employee response.\<close>

record addedUser =
  addedId :: objectId
  addedFirstName :: jsval
  addedLastName :: jsval
  addedEmail :: jsval
  addedRole :: jsval
  addedPosition :: jsval

text \<open>The JSON bodies of the handlers, one constructor for each shape.\<close>

datatype payload =
    MessageBody string
  | ErrorBody string
  | EmployeesBody nat "user list"
  | UserBody user
  | UsersBody "user list"
  | AddedBody string addedUser employeeCTC
  | EditedBody string user employeeCTC
  | DeletedBody bool string
  | LeavesBody "(leaveApplication \<times> user option) list"
  | LeaveBody string leaveApplication
  | AttendanceBody "attendance list" int int

text \<open>
  What a handler does with a request: \<^verbatim>\<open>next(err)\<close> with an error that has a status
  code, \<^verbatim>\<open>next(error)\<close> with what a \<^verbatim>\<open>catch\<close> block caught, or
  \<^verbatim>\<open>res.status(code).json(body)\<close>.
\<close>

datatype response = Next error | NextThrown thrown | Json nat payload

section \<open>Store operations\<close>

text \<open>
  \<^verbatim>\<open>Model.findById(id)\<close>: the identifier is cast, and a value that cannot be cast
  raises a cast error; an absent identifier finds nothing.
\<close>

definition findById :: "('d \<Rightarrow> objectId) \<Rightarrow> 'd list \<Rightarrow> jsval \<Rightarrow> thrown + 'd option" where
  "findById idOf ds v =
     (if v = JUndefined \<or> v = JNull then Inr None
      else case castObjectId v of
             None \<Rightarrow> Inl CastError
           | Some k \<Rightarrow> Inr (find (\<lambda>d. idOf d = k) ds))"

text \<open>\<^verbatim>\<open>.select("-password")\<close>: the document without its password field.\<close>

definition selectNoPassword :: "user \<Rightarrow> user" where
  "selectNoPassword u = u\<lparr>password := JUndefined\<rparr>"

text \<open>
  \<^verbatim>\<open>User.create(doc)\<close> and \<^verbatim>\<open>employeeCTCModel.create(doc)\<close>: the store refuses the
  document (its validators, or an identifier that is taken) or appends it.
\<close>

definition User_create :: "env \<Rightarrow> store \<Rightarrow> user \<Rightarrow> thrown + user \<times> store" where
  "User_create e s doc =
     (if rejectsUserCreate e (users s) doc \<or> uid doc \<in> set (map uid (users s))
      then Inl ValidationError
      else Inr (doc, s\<lparr>users := users s @ [doc]\<rparr>))"

definition CTC_create :: "env \<Rightarrow> store \<Rightarrow> employeeCTC \<Rightarrow> thrown + employeeCTC \<times> store" where
  "CTC_create e s doc =
     (if rejectsCTCCreate e doc \<or> ctcId doc \<in> set (map ctcId (ctcs s))
      then Inl ValidationError
      else Inr (doc, s\<lparr>ctcs := ctcs s @ [doc]\<rparr>))"

text \<open>
  \<^verbatim>\<open>User.findByIdAndUpdate(id, update, {new: true, runValidators: true})\<close>: the
  validators run on the update whether or not a document matches; the result is the
  updated document, or \<^verbatim>\<open>null\<close> when none matches. A field of the update that is
  \<^verbatim>\<open>undefined\<close> (only \<^verbatim>\<open>joiningDate\<close> can be, past the presence check) is left as it was.
\<close>

definition User_findByIdAndUpdate ::
  "env \<Rightarrow> user list \<Rightarrow> jsval \<Rightarrow> profile \<Rightarrow> thrown + user option \<times> user list" where
  "User_findByIdAndUpdate e us v p =
     (case castObjectId v of
        None \<Rightarrow> Inl CastError
      | Some k \<Rightarrow>
          if rejectsUserUpdate e us k p then Inl ValidationError
          else case find (\<lambda>u. uid u = k) us of
                 None \<Rightarrow> Inr (None, us)
               | Some u \<Rightarrow>
                   let u' = u\<lparr>firstName := firstName p, lastName := lastName p,
                              email := email p, role := role p, position := position p,
                              joiningDate := (if joiningDate p = JUndefined then joiningDate u
                                              else joiningDate p)\<rparr>
                   in Inr (Some u', map (\<lambda>d. if uid d = k then u' else d) us))"

text \<open>
  \<^verbatim>\<open>employeeCTCModel.findOneAndUpdate({employeeId: id}, update, {new: true, upsert: true})\<close>:
  the first record of the employee is updated; when there is none, a record with that
  \<^verbatim>\<open>employeeId\<close> and the update's fields is inserted.
\<close>

definition CTC_findOneAndUpdate ::
  "env \<Rightarrow> store \<Rightarrow> jsval \<Rightarrow> ctcFields \<Rightarrow> thrown + employeeCTC \<times> employeeCTC list" where
  "CTC_findOneAndUpdate e s v f =
     (case castObjectId v of
        None \<Rightarrow> Inl CastError
      | Some k \<Rightarrow>
          if rejectsCTCUpsert e k f then Inl ValidationError
          else case find (\<lambda>c. employeeId c = k) (ctcs s) of
                 Some c \<Rightarrow>
                   let c' = c\<lparr>annualCTC := annualCTC f, monthlyInHand := monthlyInHand f,
                              otherComponents := otherComponents f\<rparr>
                   in Inr (c', map (\<lambda>d. if ctcId d = ctcId c then c' else d) (ctcs s))
               | None \<Rightarrow>
                   let c' = \<lparr>annualCTC = annualCTC f, monthlyInHand = monthlyInHand f,
                             otherComponents = otherComponents f, ctcId = newObjectId e s,
                             employeeId = k, effectiveDate = JUndefined\<rparr>
                   in Inr (c', ctcs s @ [c']))"

text \<open>
  \<^verbatim>\<open>Attendance.find({userId, date: {$gte: startDate, $lte: endDate}})\<close>: every entry
  has a \<^verbatim>\<open>userId\<close>, so an absent one in the filter matches nothing.
\<close>

definition Attendance_find :: "store \<Rightarrow> jsval \<Rightarrow> int \<Rightarrow> int \<Rightarrow> thrown + attendance list" where
  "Attendance_find s v startDate endDate =
     (if v = JUndefined \<or> v = JNull then Inr []
      else case castObjectId v of
             None \<Rightarrow> Inl CastError
           | Some k \<Rightarrow>
               Inr (filter (\<lambda>a. userId a = k \<and> startDate \<le> date a \<and> date a \<le> endDate)
                      (attendances s)))"

text \<open>
  \<^verbatim>\<open>bcrypt.hash(password, 10)\<close> of bcryptjs: a string is hashed with a fresh salt; for
  any other value the promise is rejected (\<^verbatim>\<open>Illegal arguments\<close>).
\<close>

fun bcrypt_hash :: "env \<Rightarrow> jsval \<Rightarrow> thrown + string" where
  "bcrypt_hash e (JStr s) = Inr (bcryptDigest e s)"
| "bcrypt_hash e v = Inl IllegalArguments"

section \<open>Regular expressions\<close>

text \<open>
  \<^verbatim>\<open>new RegExp(query, "i")\<close> is matched by the store against a string field. Modelled
  here: the patterns made of ordinary characters and the wildcard \<^verbatim>\<open>.\<close> (any
  character but a line feed), compared without regard to the case of ASCII letters and
  found anywhere in the field. Every other pattern is left to the engine of the
  environment, which compiles it or raises a syntax error.
\<close>

definition isRegexSyntax :: "char \<Rightarrow> bool" where
  "isRegexSyntax c = (c \<in> set (CHR 0x5C # ''^$.*+?()[]{}|''))"

fun matchHere :: "string \<Rightarrow> string \<Rightarrow> bool" where
  "matchHere [] cs = True"
| "matchHere (p # ps) [] = False"
| "matchHere (p # ps) (c # cs) =
     ((if p = CHR ''.'' then c \<noteq> CHR 0x0A else toLowerAscii p = toLowerAscii c)
      \<and> matchHere ps cs)"

fun matchAnywhere :: "string \<Rightarrow> string \<Rightarrow> bool" where
  "matchAnywhere p [] = matchHere p []"
| "matchAnywhere p (c # cs) = (matchHere p (c # cs) \<or> matchAnywhere p cs)"

definition RegExp :: "env \<Rightarrow> jsval \<Rightarrow> thrown + (string \<Rightarrow> bool)" where
  "RegExp e q =
     (let p = jsToString q in
      if list_all (\<lambda>c. c = CHR ''.'' \<or> \<not> isRegexSyntax c) p then Inr (matchAnywhere p)
      else case regexOther e p of None \<Rightarrow> Inl SyntaxError | Some m \<Rightarrow> Inr m)"

text \<open>\<^verbatim>\<open>{field: {$regex: regex}}\<close>: only a string field can match.\<close>

fun regexField :: "(string \<Rightarrow> bool) \<Rightarrow> jsval \<Rightarrow> bool" where
  "regexField m (JStr s) = m s"
| "regexField m v = False"

section \<open>The employee directory\<close>

text \<open>
  \<^verbatim>\<open>getEmployees\<close>, \<^verbatim>\<open>getEmployee\<close>, \<^verbatim>\<open>search\<close> and \<^verbatim>\<open>getAllLeaveApplications\<close> only
  read the store, so they return a response; the handlers that write return the
  response and the store they leave. The sort of \<^verbatim>\<open>getEmployees\<close> is by descending
  \<^verbatim>\<open>totalPerformance\<close>, equal scores in store order.
\<close>

definition getEmployees :: "store \<Rightarrow> request \<Rightarrow> response" where
  "getEmployees s req =
     (if \<not> jsIncludes [JStr ''hr'', JStr ''admin''] (userRole req)
      then Next (Error 403 ''You are not allowed to access this API.'')
      else
        let totalEmployees = length (filter (\<lambda>u. role u = JStr ''employee'') (users s));
            employees =
              sort_key (\<lambda>u. - totalPerformance u)
                (map selectNoPassword (filter (\<lambda>u. role u = JStr ''employee'') (users s)))
        in Json 200 (EmployeesBody totalEmployees employees))"

definition getEmployee :: "store \<Rightarrow> request \<Rightarrow> response" where
  "getEmployee s req =
     (let id' = params req ''id'' in
      if \<not> jsIncludes [JStr ''hr'', JStr ''admin''] (userRole req)
      then Next (Error 403 ''Access denied.'')
      else if \<not> (truthy id' \<and> isValidObjectId id')
      then Next (errorHandler 400
                   (if truthy id' then ''Invalid Employee ID.'' else ''Employee ID is required.''))
      else case findById uid (users s) id' of
             Inl error \<Rightarrow> NextThrown error
           | Inr None \<Rightarrow> Next (errorHandler 404 ''Employee not found.'')
           | Inr (Some employee) \<Rightarrow> Json 200 (UserBody employee))"

definition search :: "env \<Rightarrow> store \<Rightarrow> request \<Rightarrow> response" where
  "search e s req =
     (let q = query req ''query'' in
      if \<not> truthy q then Json 400 (MessageBody ''Query parameter is required'')
      else case RegExp e q of
             Inl error \<Rightarrow> Json 500 (MessageBody ''Internal server error'')
           | Inr regex \<Rightarrow>
               Json 200 (UsersBody
                 (filter (\<lambda>u. role u = JStr ''employee'' \<and>
                               (regexField regex (firstName u) \<or> regexField regex (lastName u) \<or>
                                regexField regex (email u)))
                    (users s))))"

text \<open>The array literal that \<^verbatim>\<open>addEmployee\<close> filters for missing fields.\<close>

definition addEmployeeFields :: "string list" where
  "addEmployeeFields =
     [''firstName'', ''lastName'', ''email'', ''position'', ''annualCTC'', ''monthlyInHand'',
      ''housingAllowance'', ''transportAllowance'', ''mealAllowance'', ''performanceBonus'',
      ''yearEndBonus'', ''tax'', ''healthInsurance'', ''providentFund'']"

text \<open>The nested object both \<^verbatim>\<open>addEmployee\<close> and \<^verbatim>\<open>editEmployee\<close> build from the body.\<close>

definition componentsOf :: "(string \<Rightarrow> jsval) \<Rightarrow> ctcComponents" where
  "componentsOf b =
     \<lparr>allowances = \<lparr>housingAllowance = b ''housingAllowance'',
                     transportAllowance = b ''transportAllowance'',
                     mealAllowance = b ''mealAllowance''\<rparr>,
      bonuses = \<lparr>performanceBonus = b ''performanceBonus'', yearEndBonus = b ''yearEndBonus''\<rparr>,
      deductions = \<lparr>tax = b ''tax'', healthInsurance = b ''healthInsurance'',
                     providentFund = b ''providentFund''\<rparr>\<rparr>"

definition addEmployee :: "env \<Rightarrow> store \<Rightarrow> request \<Rightarrow> response \<times> store" where
  "addEmployee e s req =
     (let b = body req in
      if \<not> jsIncludes [JStr ''admin'', JStr ''hr''] (userRole req)
      then (Next (errorHandler 403 ''You do not have permission to access this API''), s)
      else
        let missingFields = filter (\<lambda>field. \<not> truthy (b field)) addEmployeeFields in
        if missingFields \<noteq> []
        then (Next (errorHandler 400
                      (''All fields are required! Missing fields: '' @ join '', '' missingFields)), s)
        else case bcrypt_hash e (b ''password'') of
          Inl error \<Rightarrow> (Next (errorHandler 500 ''Internal Server Error''), s)
        | Inr hashedPassword \<Rightarrow>
            (case User_create e s
                    \<lparr>firstName = b ''firstName'', lastName = b ''lastName'', email = b ''email'',
                     position = b ''position'', joiningDate = b ''joiningDate'',
                     role = JStr ''employee'', uid = newObjectId e s,
                     password = JStr hashedPassword, totalPerformance = 0\<rparr> of
               Inl error \<Rightarrow> (Next (errorHandler 500 ''Internal Server Error''), s)
             | Inr (user, s1) \<Rightarrow>
                 (case CTC_create e s1
                         \<lparr>annualCTC = b ''annualCTC'', monthlyInHand = b ''monthlyInHand'',
                          otherComponents = componentsOf b, ctcId = newObjectId e s1,
                          employeeId = uid user, effectiveDate = b ''joiningDate''\<rparr> of
                    Inl error \<Rightarrow> (Next (errorHandler 500 ''Internal Server Error''), s1)
                  | Inr (employeeCTC, s2) \<Rightarrow>
                      (Json 201 (AddedBody ''Employee added successfully!''
                         \<lparr>addedId = uid user, addedFirstName = firstName user,
                          addedLastName = lastName user, addedEmail = email user,
                          addedRole = role user, addedPosition = position user\<rparr>
                         employeeCTC), s2))))"

text \<open>The two update objects that \<^verbatim>\<open>editEmployee\<close> builds from the body.\<close>

definition profileOf :: "(string \<Rightarrow> jsval) \<Rightarrow> profile" where
  "profileOf b =
     \<lparr>firstName = b ''firstName'', lastName = b ''lastName'', email = b ''email'',
      position = b ''position'', joiningDate = b ''joiningDate'', role = b ''role''\<rparr>"

definition ctcFieldsOf :: "(string \<Rightarrow> jsval) \<Rightarrow> ctcFields" where
  "ctcFieldsOf b =
     \<lparr>annualCTC = b ''annualCTC'', monthlyInHand = b ''monthlyInHand'',
      otherComponents = componentsOf b\<rparr>"

definition requiredFields :: "string list" where
  "requiredFields =
     [''firstName'', ''lastName'', ''email'', ''position'', ''role'', ''annualCTC'',
      ''monthlyInHand'', ''housingAllowance'', ''transportAllowance'', ''mealAllowance'',
      ''performanceBonus'', ''yearEndBonus'', ''tax'', ''healthInsurance'', ''providentFund'']"

text \<open>
  \<^verbatim>\<open>editEmployee\<close> issues its two writes together (\<^verbatim>\<open>Promise.all\<close>) on two
  collections: each takes effect unless the store refuses it, whatever the other does,
  and the handler answers 500 when either was refused.
\<close>

definition editEmployee :: "env \<Rightarrow> store \<Rightarrow> request \<Rightarrow> response \<times> store" where
  "editEmployee e s req =
     (let userId' = query req ''userId''; b = body req in
      if \<not> jsIncludes [JStr ''admin'', JStr ''hr''] (userRole req)
      then (Next (errorHandler 403 ''Unauthorized access''), s)
      else if \<not> isValidObjectId userId'
      then (Next (errorHandler 400 ''Invalid User ID''), s)
      else
        let missingFields = filter (\<lambda>field. \<not> truthy (b field)) requiredFields in
        if missingFields \<noteq> []
        then (Next (errorHandler 400 (''Missing fields: '' @ join '', '' missingFields)), s)
        else
          let userWrite =
                User_findByIdAndUpdate e (users s) userId' (profileOf b);
              ctcWrite =
                CTC_findOneAndUpdate e s userId' (ctcFieldsOf b);
              s' = s\<lparr>users := (case userWrite of Inl error \<Rightarrow> users s | Inr (u, us) \<Rightarrow> us),
                     ctcs := (case ctcWrite of Inl error \<Rightarrow> ctcs s | Inr (c, cs) \<Rightarrow> cs)\<rparr>
          in case userWrite of
               Inl error \<Rightarrow> (Next (errorHandler 500 ''Internal Server Error''), s')
             | Inr (updatedUser, us) \<Rightarrow>
                 (case ctcWrite of
                    Inl error \<Rightarrow> (Next (errorHandler 500 ''Internal Server Error''), s')
                  | Inr (updatedCTC, cs) \<Rightarrow>
                      (case updatedUser of
                         None \<Rightarrow> (Next (errorHandler 404 ''Employee not found''), s')
                       | Some u \<Rightarrow>
                           (Json 200 (EditedBody ''Employee data updated successfully''
                                        u updatedCTC), s'))))"

text \<open>
  \<^verbatim>\<open>User.findByIdAndDelete(id)\<close> removes the record it finds. Past the check of the
  identifier nothing that \<^verbatim>\<open>deleteEmployee\<close> calls raises an error in this model; the
  branch that stands for its \<^verbatim>\<open>catch\<close> block carries the fallback message of the
  handler. The same holds for the \<^verbatim>\<open>catch\<close> blocks of \<^verbatim>\<open>getEmployees\<close> and
  \<^verbatim>\<open>getAllLeaveApplications\<close>, which are left out, and of \<^verbatim>\<open>getEmployee\<close>, which
  hands the error on as it caught it.
\<close>

definition deleteEmployee :: "store \<Rightarrow> request \<Rightarrow> response \<times> store" where
  "deleteEmployee s req =
     (let id' = params req ''id'' in
      if \<not> jsIncludes [JStr ''admin'', JStr ''hr''] (userRole req)
      then (Next (errorHandler 403 ''You don't have permission to access this API.''), s)
      else if \<not> (truthy id' \<and> isValidObjectId id')
      then (Next (errorHandler 400 ''A valid Employee ID is required.''), s)
      else case findById uid (users s) id' of
             Inl error \<Rightarrow>
               (Next (errorHandler 500 ''An error occurred while deleting the employee.''), s)
           | Inr None \<Rightarrow>
               (Next (errorHandler 404
                        ''Employee does not exist or may have already been deleted.''), s)
           | Inr (Some employee) \<Rightarrow>
               (Json 200 (DeletedBody True
                  (''Employee '' @ jsToString (firstName employee) @ '' '' @
                   jsToString (lastName employee) @ '' deleted successfully!'')),
                s\<lparr>users := filter (\<lambda>u. uid u \<noteq> uid employee) (users s)\<rparr>))"

section \<open>The leave approval workflow\<close>

text \<open>
  \<^verbatim>\<open>.populate("employeeId", "-password")\<close> joins the applicant's record, without its
  password, or \<^verbatim>\<open>null\<close> when there is no such employee.
\<close>

definition getAllLeaveApplications :: "store \<Rightarrow> request \<Rightarrow> response" where
  "getAllLeaveApplications s req =
     (if \<not> jsIncludes [JStr ''admin'', JStr ''hr''] (userRole req)
      then Next (errorHandler 403 ''You don't have permission to access this API.'')
      else Json 200 (LeavesBody
             (map (\<lambda>l. (l, map_option selectNoPassword
                              (find (\<lambda>u. uid u = applicantId l) (users s))))
                (leaveApplications s))))"

definition updateLeaveApplicationStatus :: "env \<Rightarrow> store \<Rightarrow> request \<Rightarrow> response \<times> store" where
  "updateLeaveApplicationStatus e s req =
     (let id' = params req ''id'';
          status' = body req ''status'';
          hrComments' = body req ''hrComments''
      in
      if \<not> jsIncludes [JStr ''admin'', JStr ''hr''] (userRole req)
      then (Next (errorHandler 403 ''You don't have permission to perform this action.''), s)
      else case findById leaveId (leaveApplications s) id' of
        Inl error \<Rightarrow> (Next (errorHandler 500 ''Internal server error''), s)
      | Inr None \<Rightarrow> (Next (errorHandler 404 ''Leave application not found.''), s)
      | Inr (Some leaveApplication) \<Rightarrow>
          if status' \<noteq> JStr ''Approved'' \<and> status' \<noteq> JStr ''Rejected''
          then (Next (errorHandler 400
                        ''Invalid action. Please use 'approve' or 'reject'.''), s)
          else
            let saved = leaveApplication\<lparr>status := status',
                                         hrComments := jsOr hrComments' (JStr [])\<rparr>
            in if rejectsLeaveSave e saved
               then (Next (errorHandler 500 ''Internal server error''), s)
               else (Json 200 (LeaveBody
                       (''Leave application '' @ jsToString status' @ ''d successfully.'') saved),
                     s\<lparr>leaveApplications :=
                          map (\<lambda>d. if leaveId d = leaveId saved then saved else d)
                            (leaveApplications s)\<rparr>))"

section \<open>The attendance aggregator\<close>

text \<open>
  A \<^verbatim>\<open>Date\<close> is its time value, the milliseconds since the epoch. Local time is
  taken to be UTC (a zone at a fixed offset shifts every instant alike; daylight saving
  is not modelled). The calendar is the proleptic Gregorian one of the language
  standard: day numbers count from 1 January 1970, a Thursday.
\<close>

definition msPerDay :: int where
  "msPerDay = 86400000"

definition dayNumber :: "int \<Rightarrow> int" where
  "dayNumber t = t div msPerDay"

text \<open>The day number of a civil date (month 1 to 12), and the civil date of a day number.\<close>

definition daysFromCivil :: "int \<Rightarrow> int \<Rightarrow> int \<Rightarrow> int" where
  "daysFromCivil y m d =
     (let y' = (if m \<le> 2 then y - 1 else y);
          era = y' div 400;
          yoe = y' - era * 400;
          doy = (153 * (if m > 2 then m - 3 else m + 9) + 2) div 5 + d - 1;
          doe = yoe * 365 + yoe div 4 - yoe div 100 + doy
      in era * 146097 + doe - 719468)"

definition civilFromDays :: "int \<Rightarrow> int \<times> int \<times> int" where
  "civilFromDays z =
     (let z' = z + 719468;
          era = z' div 146097;
          doe = z' - era * 146097;
          yoe = (doe - doe div 1460 + doe div 36524 - doe div 146096) div 365;
          doy = doe - (365 * yoe + yoe div 4 - yoe div 100);
          mp = (5 * doy + 2) div 153;
          d = doy - (153 * mp + 2) div 5 + 1;
          m = (if mp < 10 then mp + 3 else mp - 9)
      in (if m \<le> 2 then yoe + era * 400 + 1 else yoe + era * 400, m, d))"

definition getFullYear :: "int \<Rightarrow> int" where
  "getFullYear t = fst (civilFromDays (dayNumber t))"

text \<open>\<^verbatim>\<open>getMonth()\<close> counts from 0.\<close>

definition getMonth :: "int \<Rightarrow> int" where
  "getMonth t = fst (snd (civilFromDays (dayNumber t))) - 1"

definition getDate :: "int \<Rightarrow> int" where
  "getDate t = snd (snd (civilFromDays (dayNumber t)))"

text \<open>\<^verbatim>\<open>getDay()\<close>: 0 is Sunday.\<close>

definition getDay :: "int \<Rightarrow> int" where
  "getDay t = (dayNumber t + 4) mod 7"

text \<open>
  \<^verbatim>\<open>new Date(year, month, day)\<close>, for a month from 0 to 11: midnight of the day that
  is \<open>day - 1\<close> days after the first of the month, so that a day below 1 falls in an
  earlier month. A year from 0 to 99 stands for 1900 and later.
\<close>

definition newDate :: "int \<Rightarrow> int \<Rightarrow> int \<Rightarrow> int" where
  "newDate y m d =
     (daysFromCivil (if 0 \<le> y \<and> y \<le> 99 then 1900 + y else y) (m + 1) 1 + (d - 1)) * msPerDay"

text \<open>\<^verbatim>\<open>date.setHours(0, 0, 0, 0)\<close>: the new time value, which the date object now holds.\<close>

definition setHoursZero :: "int \<Rightarrow> int" where
  "setHoursZero t = dayNumber t * msPerDay"

text \<open>
  \<^verbatim>\<open>getDateRange(period)\<close>, given the time value of \<^verbatim>\<open>new Date()\<close>. The result is the
  pair \<^verbatim>\<open>(startDate, endDate)\<close>; \<^verbatim>\<open>endDate\<close> is the object \<^verbatim>\<open>now\<close>, which the last
  branch has changed through \<^verbatim>\<open>setHours\<close>.
\<close>

definition getDateRange :: "int \<Rightarrow> jsval \<Rightarrow> int \<times> int" where
  "getDateRange now period =
     (if period = JStr ''weekly''
      then (newDate (getFullYear now) (getMonth now) (getDate now - getDay now), now)
      else if period = JStr ''monthly''
      then (newDate (getFullYear now) (getMonth now) 1, now)
      else if period = JStr ''yearly''
      then (newDate (getFullYear now) 0 1, now)
      else (let now' = setHoursZero now in (now', now')))"

definition getAttendance :: "int \<Rightarrow> store \<Rightarrow> request \<Rightarrow> response" where
  "getAttendance now s req =
     (let userId' = query req ''userId'';
          period = jsOr (query req ''period'') (JStr ''today'');
          (startDate, endDate) = getDateRange now period
      in case Attendance_find s userId' startDate endDate of
           Inl error \<Rightarrow> Json 500 (ErrorBody ''Failed to retrieve attendance data'')
         | Inr attendanceData \<Rightarrow>
             let workedHours =
                   foldl (\<lambda>total record.
                            total + (case duration record of
                                       None \<Rightarrow> 0
                                     | Some d \<Rightarrow> if d \<noteq> 0 then d else 0))
                     0 attendanceData;
                 totalWorkingHours =
                   (if period = JStr ''weekly'' then 5 * 8
                    else if period = JStr ''monthly'' then 20 * 8
                    else if period = JStr ''yearly'' then 240 * 8
                    else 8)
             in Json 200 (AttendanceBody attendanceData workedHours totalWorkingHours))"

section \<open>Containment, as the spec words the search\<close>

text \<open>
  The spec describes the search as a case-insensitive substring match. This is that
  reading, to compare the handler with: \<open>q\<close> occurs in \<open>s\<close> at some position, letters
  compared without regard to case.
\<close>

fun containsIgnoringCase :: "string \<Rightarrow> string \<Rightarrow> bool" where
  "containsIgnoringCase q [] = (q = [])"
| "containsIgnoringCase q (c # cs) =
     (map toLowerAscii q = take (length q) (map toLowerAscii (c # cs))
      \<or> containsIgnoringCase q cs)"

text \<open>The same, for a field of a document: only a string contains anything.\<close>

fun fieldContains :: "string \<Rightarrow> jsval \<Rightarrow> bool" where
  "fieldContains q (JStr s) = containsIgnoringCase q s"
| "fieldContains q v = False"

section \<open>Missing fields, as the spec words the presence check\<close>

text \<open>
  The spec has add-employee name the missing fields. This is that reading, to compare
  the handler with: the required fields that the body does not have.
\<close>

definition absentFields :: "(string \<Rightarrow> jsval) \<Rightarrow> string list \<Rightarrow> string list" where
  "absentFields b names = filter (\<lambda>name. b name = JUndefined) names"

section \<open>What a caller observes\<close>

text \<open>
  The status of a response: the code of the JSON answer, or the \<^verbatim>\<open>statusCode\<close> of the
  error handed to \<^verbatim>\<open>next\<close>. An error that a \<^verbatim>\<open>catch\<close> block passes on as it caught
  it carries none.
\<close>

fun responseStatus :: "response \<Rightarrow> nat option" where
  "responseStatus (Next err) = Some (statusCode err)"
| "responseStatus (NextThrown t) = None"
| "responseStatus (Json code b) = Some code"

section \<open>A concrete environment, store and requests\<close>

text \<open>
  The inputs at which the theorems below are instantiated: an environment whose store
  refuses no write and whose identifiers are numbered, three users, one compensation
  record, one pending leave application and a few attendance entries.
\<close>

definition exampleId :: "nat \<Rightarrow> objectId" where
  "exampleId n = replicate (24 - length (digitsOf n)) (CHR ''0'') @ digitsOf n"

definition exampleEnv :: env where
  "exampleEnv =
     \<lparr>bcryptDigest = (\<lambda>secret. ''$2a$10$'' @ rev secret),
      newObjectId = (\<lambda>s. exampleId (100 + length (users s) + length (ctcs s))),
      rejectsUserCreate = (\<lambda>us u. False),
      rejectsUserUpdate = (\<lambda>us k p. False),
      rejectsCTCCreate = (\<lambda>c. False),
      rejectsCTCUpsert = (\<lambda>k f. False),
      rejectsLeaveSave = (\<lambda>l. False),
      regexOther = (\<lambda>p. None)\<rparr>"

definition asha :: user where
  "asha =
     \<lparr>firstName = JStr ''Asha'', lastName = JStr ''Rao'', email = JStr ''asha@hyro.test'',
      position = JStr ''Engineer'', joiningDate = JStr ''2023-04-01'',
      role = JStr ''employee'', uid = exampleId 1, password = JStr ''$2a$10$ahsa'',
      totalPerformance = 7\<rparr>"

definition ben :: user where
  "ben =
     \<lparr>firstName = JStr ''Ben'', lastName = JStr ''Okafor'', email = JStr ''ben@hyro.test'',
      position = JStr ''Analyst'', joiningDate = JStr ''2022-09-12'',
      role = JStr ''employee'', uid = exampleId 2, password = JStr ''$2a$10$neb'',
      totalPerformance = 9\<rparr>"

definition chen :: user where
  "chen =
     \<lparr>firstName = JStr ''Chen'', lastName = JStr ''Li'', email = JStr ''chen@hyro.test'',
      position = JStr ''HR lead'', joiningDate = JStr ''2020-01-06'',
      role = JStr ''hr'', uid = exampleId 3, password = JStr ''$2a$10$nehc'',
      totalPerformance = 0\<rparr>"

definition ashaCTC :: employeeCTC where
  "ashaCTC =
     \<lparr>annualCTC = JNum 1200000, monthlyInHand = JNum 80000,
      otherComponents =
        \<lparr>allowances = \<lparr>housingAllowance = JNum 20000, transportAllowance = JNum 3000,
                        mealAllowance = JNum 2000\<rparr>,
         bonuses = \<lparr>performanceBonus = JNum 50000, yearEndBonus = JNum 25000\<rparr>,
         deductions = \<lparr>tax = JNum 9000, healthInsurance = JNum 1500,
                        providentFund = JNum 4000\<rparr>\<rparr>,
      ctcId = exampleId 11, employeeId = exampleId 1, effectiveDate = JStr ''2023-04-01''\<rparr>"

definition ashaLeave :: leaveApplication where
  "ashaLeave =
     \<lparr>leaveId = exampleId 21, applicantId = exampleId 1, status = JStr ''Pending'',
      hrComments = JUndefined\<rparr>"

text \<open>
  Attendance of Asha around Wednesday 15 May 2024, 10:30 (time value 1715769000000): an
  entry that morning at 09:00, one on Monday 13 May, one on 2 May, one on 1 February
  without a duration, one on 31 December 2023, and an entry of Ben's.
\<close>

definition exampleAttendances :: "attendance list" where
  "exampleAttendances =
     [\<lparr>userId = exampleId 1, date = 1715763600000, duration = Some 1\<rparr>,
      \<lparr>userId = exampleId 1, date = 1715590800000, duration = Some 8\<rparr>,
      \<lparr>userId = exampleId 1, date = 1714640400000, duration = Some 7\<rparr>,
      \<lparr>userId = exampleId 1, date = 1706778000000, duration = None\<rparr>,
      \<lparr>userId = exampleId 1, date = 1704013200000, duration = Some 8\<rparr>,
      \<lparr>userId = exampleId 2, date = 1715763600000, duration = Some 2\<rparr>]"

definition exampleStore :: store where
  "exampleStore =
     \<lparr>users = [asha, ben, chen], ctcs = [ashaCTC], leaveApplications = [ashaLeave],
      attendances = exampleAttendances\<rparr>"

text \<open>A request, from the role and the three objects as lists of properties.\<close>

definition exampleRequest ::
  "jsval \<Rightarrow> (string \<times> jsval) list \<Rightarrow> (string \<times> jsval) list \<Rightarrow> (string \<times> jsval) list \<Rightarrow> request" where
  "exampleRequest r ps qs bs =
     \<lparr>userRole = r, params = jsObject ps, query = jsObject qs, body = jsObject bs\<rparr>"

text \<open>A body with every field the two forms ask for, and a password.\<close>

definition fullBody :: "(string \<times> jsval) list" where
  "fullBody =
     [(''firstName'', JStr ''Dana''), (''lastName'', JStr ''Iyer''),
      (''email'', JStr ''dana@hyro.test''), (''password'', JStr ''s3cret''),
      (''position'', JStr ''Designer''), (''joiningDate'', JStr ''2024-06-03''),
      (''role'', JStr ''employee''),
      (''annualCTC'', JNum 900000), (''monthlyInHand'', JNum 60000),
      (''housingAllowance'', JNum 15000), (''transportAllowance'', JNum 2500),
      (''mealAllowance'', JNum 1500), (''performanceBonus'', JNum 30000),
      (''yearEndBonus'', JNum 10000), (''tax'', JNum 7000),
      (''healthInsurance'', JNum 1200), (''providentFund'', JNum 3600)]"

text \<open>A request of an employee, with every identifier and field a handler could ask for.\<close>

definition employeeRequest :: request where
  "employeeRequest =
     exampleRequest (JStr ''employee'') [(''id'', JStr (exampleId 1))]
       [(''userId'', JStr (exampleId 1))] ((''status'', JStr ''Approved'') # fullBody)"

text \<open>An add-employee request of the HR lead whose body lacks \<^verbatim>\<open>email\<close> and \<^verbatim>\<open>tax\<close>.\<close>

definition incompleteAdd :: request where
  "incompleteAdd =
     exampleRequest (JStr ''hr'') [] []
       (filter (\<lambda>kv. fst kv \<noteq> ''email'' \<and> fst kv \<noteq> ''tax'') fullBody)"

text \<open>
  An add-employee request of the HR lead whose body lacks \<^verbatim>\<open>email\<close> and supplies
  \<^verbatim>\<open>tax\<close> as the number 0.
\<close>

definition absentEmailZeroTax :: request where
  "absentEmailZeroTax =
     exampleRequest (JStr ''hr'') [] []
       ((''tax'', JNum 0) #
        filter (\<lambda>kv. fst kv \<noteq> ''email'' \<and> fst kv \<noteq> ''tax'') fullBody)"

text \<open>
  A request of an admin, for add-employee and for edit-employee of Asha, whose body
  gives \<^verbatim>\<open>tax\<close> as the number 0 and \<^verbatim>\<open>lastName\<close> as the empty string.
\<close>

definition zeroTaxRequest :: request where
  "zeroTaxRequest =
     exampleRequest (JStr ''admin'') [] [(''userId'', JStr (exampleId 1))]
       ((''tax'', JNum 0) # (''lastName'', JStr []) #
        filter (\<lambda>kv. fst kv \<noteq> ''tax'' \<and> fst kv \<noteq> ''lastName'') fullBody)"

text \<open>An add-employee request of the HR lead with every listed field and no password.\<close>

definition noPasswordAdd :: request where
  "noPasswordAdd =
     exampleRequest (JStr ''hr'') [] [] (filter (\<lambda>kv. fst kv \<noteq> ''password'') fullBody)"

text \<open>The HR lead approves Asha's leave application, with a comment.\<close>

definition approveRequest :: request where
  "approveRequest =
     exampleRequest (JStr ''hr'') [(''id'', JStr (exampleId 21))] []
       [(''status'', JStr ''Approved''), (''hrComments'', JStr ''Enjoy'')]"

text \<open>
  The HR lead edits an employee whose identifier is well formed and belongs to nobody,
  and asks for Asha's attendance of the week.
\<close>

definition editUnknown :: request where
  "editUnknown = exampleRequest (JStr ''hr'') [] [(''userId'', JStr (exampleId 77))] fullBody"

definition weeklyAttendance :: request where
  "weeklyAttendance =
     exampleRequest (JStr ''hr'') []
       [(''userId'', JStr (exampleId 1)), (''period'', JStr ''weekly'')] []"

text \<open>
  Asha's attendance of today (no period given), a search for \<^verbatim>\<open>a.ha\<close>, the HR lead
  adding Dana, and the HR lead reading the record with the identifier that add-employee
  returned.
\<close>

definition todayAttendance :: request where
  "todayAttendance = exampleRequest (JStr ''hr'') [] [(''userId'', JStr (exampleId 1))] []"

definition searchDot :: request where
  "searchDot = exampleRequest (JStr ''hr'') [] [(''query'', JStr ''a.ha'')] []"

definition addDana :: request where
  "addDana = exampleRequest (JStr ''hr'') [] [] fullBody"

definition getDana :: request where
  "getDana = exampleRequest (JStr ''hr'') [(''id'', JStr (exampleId 104))] [] []"

section \<open>Authorisation\<close>

lemma jsIncludes_pair: "jsIncludes [JStr a, JStr b] v \<longleftrightarrow> v = JStr a \<or> v = JStr b"
  by (auto simp: jsIncludes_def)

text \<open>
  C1: a request whose principal's role is neither \<^verbatim>\<open>hr\<close> nor \<^verbatim>\<open>admin\<close> is answered
  with status 403 by each of the seven protected operations, and the four that write
  (add, edit, delete, update leave status) leave the store as it was; the other three
  only read it.
\<close>

theorem forbidden_without_role:
  assumes "userRole req \<noteq> JStr ''hr''" and "userRole req \<noteq> JStr ''admin''"
  shows "responseStatus (getEmployees s req) = Some 403
       \<and> responseStatus (getEmployee s req) = Some 403
       \<and> responseStatus (getAllLeaveApplications s req) = Some 403
       \<and> responseStatus (fst (addEmployee e s req)) = Some 403 \<and> snd (addEmployee e s req) = s
       \<and> responseStatus (fst (editEmployee e s req)) = Some 403 \<and> snd (editEmployee e s req) = s
       \<and> responseStatus (fst (deleteEmployee s req)) = Some 403 \<and> snd (deleteEmployee s req) = s
       \<and> responseStatus (fst (updateLeaveApplicationStatus e s req)) = Some 403
       \<and> snd (updateLeaveApplicationStatus e s req) = s"
proof -
  have no: "\<not> jsIncludes [JStr ''hr'', JStr ''admin''] (userRole req)"
           "\<not> jsIncludes [JStr ''admin'', JStr ''hr''] (userRole req)"
    using assms by (simp_all add: jsIncludes_pair)
  have 1: "responseStatus (getEmployees s req) = Some 403"
    using no by (simp add: getEmployees_def)
  have 2: "responseStatus (getEmployee s req) = Some 403"
    using no by (simp add: getEmployee_def)
  have 3: "responseStatus (getAllLeaveApplications s req) = Some 403"
    using no by (simp add: getAllLeaveApplications_def errorHandler_def)
  have 4: "addEmployee e s req =
             (Next (errorHandler 403 ''You do not have permission to access this API''), s)"
    using no by (simp add: addEmployee_def)
  have 5: "editEmployee e s req = (Next (errorHandler 403 ''Unauthorized access''), s)"
    using no by (simp add: editEmployee_def)
  have 6: "deleteEmployee s req =
             (Next (errorHandler 403 ''You don't have permission to access this API.''), s)"
    using no by (simp add: deleteEmployee_def)
  have 7: "updateLeaveApplicationStatus e s req =
             (Next (errorHandler 403 ''You don't have permission to perform this action.''), s)"
    using no by (simp add: updateLeaveApplicationStatus_def)
  show ?thesis
    using 1 2 3 4 5 6 7 by (simp add: errorHandler_def)
qed

theorem forbidden_without_role_witness:
  "userRole employeeRequest \<noteq> JStr ''hr'' \<and> userRole employeeRequest \<noteq> JStr ''admin''
   \<and> responseStatus (getEmployees exampleStore employeeRequest) = Some 403
   \<and> responseStatus (getEmployee exampleStore employeeRequest) = Some 403
   \<and> responseStatus (getAllLeaveApplications exampleStore employeeRequest) = Some 403
   \<and> responseStatus (fst (addEmployee exampleEnv exampleStore employeeRequest)) = Some 403
   \<and> snd (addEmployee exampleEnv exampleStore employeeRequest) = exampleStore
   \<and> responseStatus (fst (editEmployee exampleEnv exampleStore employeeRequest)) = Some 403
   \<and> snd (editEmployee exampleEnv exampleStore employeeRequest) = exampleStore
   \<and> responseStatus (fst (deleteEmployee exampleStore employeeRequest)) = Some 403
   \<and> snd (deleteEmployee exampleStore employeeRequest) = exampleStore
   \<and> responseStatus (fst (updateLeaveApplicationStatus exampleEnv exampleStore employeeRequest))
       = Some 403
   \<and> snd (updateLeaveApplicationStatus exampleEnv exampleStore employeeRequest) = exampleStore"
proof -
  have h1: "userRole employeeRequest \<noteq> JStr ''hr''"
    and h2: "userRole employeeRequest \<noteq> JStr ''admin''"
    by (simp_all add: employeeRequest_def exampleRequest_def)
  from forbidden_without_role [OF h1 h2, of exampleStore exampleEnv] h1 h2
  show ?thesis by simp
qed

section \<open>The presence check of add-employee and edit-employee\<close>

lemma filter_nonempty: "x \<in> set xs \<Longrightarrow> P x \<Longrightarrow> filter P xs \<noteq> []"
  by (induction xs) auto

lemma not_truthy_iff:
  "\<not> truthy v \<longleftrightarrow> v = JUndefined \<or> v = JNull \<or> v = JBool False \<or> v = JNum 0 \<or> v = JStr []"
  by (cases v) auto

text \<open>
  When no required field is supplied with a falsy value, the fields that fail the
  presence test are the absent ones.
\<close>

lemma failing_fields_absent:
  "list_all (\<lambda>f. b f = JUndefined \<or> truthy (b f)) names \<Longrightarrow>
   filter (\<lambda>f. \<not> truthy (b f)) names = absentFields b names"
  by (induction names) (auto simp: absentFields_def)

text \<open>
  C3, as the code has it: when an HR or admin principal calls add-employee and one of
  the 14 required fields is absent or falsy (\<^verbatim>\<open>undefined\<close>, \<^verbatim>\<open>null\<close>, \<^verbatim>\<open>false\<close>, the
  number 0 or the empty string), the answer is the 400 error whose message lists, in
  the order of the form, exactly the required fields that are absent or falsy, that
  field among them, and the store is unchanged: no employee record and no compensation
  record is created.
\<close>

theorem addEmployee_names_absent_or_falsy:
  assumes "jsIncludes [JStr ''admin'', JStr ''hr''] (userRole req)"
    and "field \<in> set addEmployeeFields" and "\<not> truthy (body req field)"
  shows "addEmployee e s req =
           (Next (errorHandler 400 (''All fields are required! Missing fields: '' @
                    join '', '' (filter (\<lambda>f. \<not> truthy (body req f)) addEmployeeFields))), s)
       \<and> filter (\<lambda>f. \<not> truthy (body req f)) addEmployeeFields =
           filter (\<lambda>f. body req f = JUndefined \<or> body req f = JNull \<or>
                        body req f = JBool False \<or> body req f = JNum 0 \<or>
                        body req f = JStr []) addEmployeeFields
       \<and> field \<in> set (filter (\<lambda>f. \<not> truthy (body req f)) addEmployeeFields)
       \<and> responseStatus (fst (addEmployee e s req)) = Some 400
       \<and> snd (addEmployee e s req) = s"
proof -
  let ?missing = "filter (\<lambda>f. \<not> truthy (body req f)) addEmployeeFields"
  have named: "field \<in> set ?missing"
    using assms(2,3) by simp
  have ne: "?missing \<noteq> []"
    using assms(2,3) by (rule filter_nonempty)
  have resp: "addEmployee e s req =
           (Next (errorHandler 400 (''All fields are required! Missing fields: '' @
                    join '', '' ?missing)), s)"
    using assms(1) ne by (simp add: addEmployee_def Let_def)
  have falsy: "?missing =
           filter (\<lambda>f. body req f = JUndefined \<or> body req f = JNull \<or>
                        body req f = JBool False \<or> body req f = JNum 0 \<or>
                        body req f = JStr []) addEmployeeFields"
    by (simp only: not_truthy_iff)
  show ?thesis
    using named resp falsy by (simp add: errorHandler_def)
qed

theorem addEmployee_names_absent_or_falsy_witness:
  "jsIncludes [JStr ''admin'', JStr ''hr''] (userRole incompleteAdd)
   \<and> ''email'' \<in> set addEmployeeFields
   \<and> body incompleteAdd ''email'' = JUndefined
   \<and> addEmployee exampleEnv exampleStore incompleteAdd =
       (Next (Error 400 ''All fields are required! Missing fields: email, tax''), exampleStore)"
proof -
  have h1: "jsIncludes [JStr ''admin'', JStr ''hr''] (userRole incompleteAdd)"
    by (simp add: jsIncludes_def incompleteAdd_def exampleRequest_def)
  have h2: "''email'' \<in> set addEmployeeFields"
    by (simp add: addEmployeeFields_def)
  have h3: "body incompleteAdd ''email'' = JUndefined"
    by (simp add: incompleteAdd_def exampleRequest_def fullBody_def jsObject_def)
  have h4: "\<not> truthy (body incompleteAdd ''email'')"
    by (simp add: h3)
  have named: "filter (\<lambda>f. \<not> truthy (body incompleteAdd f)) addEmployeeFields =
                 [''email'', ''tax'']"
    by (simp add: incompleteAdd_def exampleRequest_def fullBody_def jsObject_def
          addEmployeeFields_def)
  from addEmployee_names_absent_or_falsy [OF h1 h2 h4, of exampleEnv exampleStore]
  have "addEmployee exampleEnv exampleStore incompleteAdd =
          (Next (errorHandler 400 (''All fields are required! Missing fields: '' @
             join '', '' [''email'', ''tax''])), exampleStore)"
    by (simp only: named)
  then show ?thesis
    using h1 h2 h3 by (simp add: errorHandler_def)
qed

text \<open>
  The claim as the spec words it, that the message names exactly the missing fields,
  fails where a field is supplied with a falsy value. The HR lead's body lacks
  \<^verbatim>\<open>email\<close> and supplies \<^verbatim>\<open>tax\<close> as the number 0: the only absent field is
  \<^verbatim>\<open>email\<close>, and the message names \<^verbatim>\<open>email\<close> and \<^verbatim>\<open>tax\<close>, so the answer is not the
  one that names the absent fields alone.
\<close>

theorem addEmployee_names_supplied_zero:
  "jsIncludes [JStr ''admin'', JStr ''hr''] (userRole absentEmailZeroTax)
   \<and> body absentEmailZeroTax ''tax'' = JNum 0
   \<and> absentFields (body absentEmailZeroTax) addEmployeeFields = [''email'']
   \<and> addEmployee exampleEnv exampleStore absentEmailZeroTax =
       (Next (Error 400 ''All fields are required! Missing fields: email, tax''), exampleStore)
   \<and> addEmployee exampleEnv exampleStore absentEmailZeroTax \<noteq>
       (Next (errorHandler 400 (''All fields are required! Missing fields: '' @
          join '', '' (absentFields (body absentEmailZeroTax) addEmployeeFields))),
        exampleStore)"
  by code_simp

text \<open>
  C9: the presence check of add-employee and of edit-employee tests truthiness, so for an
  HR or admin principal a required field supplied as the number 0 or as the empty string
  is listed among the missing fields and the call is rejected with the 400 error (for
  edit-employee, once the \<^verbatim>\<open>userId\<close> of the query has passed its own check).
\<close>

theorem falsy_field_counts_as_missing:
  assumes "jsIncludes [JStr ''admin'', JStr ''hr''] (userRole req)"
    and "body req field = JNum 0 \<or> body req field = JStr []"
  shows "(field \<in> set addEmployeeFields \<longrightarrow>
            addEmployee e s req =
              (Next (errorHandler 400 (''All fields are required! Missing fields: '' @
                 join '', '' (filter (\<lambda>f. \<not> truthy (body req f)) addEmployeeFields))), s)
            \<and> field \<in> set (filter (\<lambda>f. \<not> truthy (body req f)) addEmployeeFields))
       \<and> (field \<in> set requiredFields \<and> isValidObjectId (query req ''userId'') \<longrightarrow>
            editEmployee e s req =
              (Next (errorHandler 400 (''Missing fields: '' @
                 join '', '' (filter (\<lambda>f. \<not> truthy (body req f)) requiredFields))), s)
            \<and> field \<in> set (filter (\<lambda>f. \<not> truthy (body req f)) requiredFields))"
proof -
  have falsy: "\<not> truthy (body req field)"
    using assms(2) by auto
  have add: "addEmployee e s req =
              (Next (errorHandler 400 (''All fields are required! Missing fields: '' @
                 join '', '' (filter (\<lambda>f. \<not> truthy (body req f)) addEmployeeFields))), s)"
    if "field \<in> set addEmployeeFields"
  proof -
    have "filter (\<lambda>f. \<not> truthy (body req f)) addEmployeeFields \<noteq> []"
      using that falsy by (rule filter_nonempty)
    then show ?thesis
      using assms(1) by (simp add: addEmployee_def Let_def)
  qed
  have edit: "editEmployee e s req =
              (Next (errorHandler 400 (''Missing fields: '' @
                 join '', '' (filter (\<lambda>f. \<not> truthy (body req f)) requiredFields))), s)"
    if "field \<in> set requiredFields" and "isValidObjectId (query req ''userId'')"
  proof -
    have "filter (\<lambda>f. \<not> truthy (body req f)) requiredFields \<noteq> []"
      using that(1) falsy by (rule filter_nonempty)
    then show ?thesis
      using assms(1) that(2) by (simp add: editEmployee_def Let_def)
  qed
  show ?thesis
    using add edit falsy by simp
qed

theorem falsy_field_counts_as_missing_witness:
  "jsIncludes [JStr ''admin'', JStr ''hr''] (userRole zeroTaxRequest)
   \<and> body zeroTaxRequest ''tax'' = JNum 0
   \<and> ''tax'' \<in> set addEmployeeFields \<and> ''tax'' \<in> set requiredFields
   \<and> isValidObjectId (query zeroTaxRequest ''userId'')
   \<and> addEmployee exampleEnv exampleStore zeroTaxRequest =
       (Next (Error 400 ''All fields are required! Missing fields: lastName, tax''), exampleStore)
   \<and> editEmployee exampleEnv exampleStore zeroTaxRequest =
       (Next (Error 400 ''Missing fields: lastName, tax''), exampleStore)"
proof -
  have h1: "jsIncludes [JStr ''admin'', JStr ''hr''] (userRole zeroTaxRequest)"
    by (simp add: jsIncludes_def zeroTaxRequest_def exampleRequest_def)
  have h2: "body zeroTaxRequest ''tax'' = JNum 0"
    by (simp add: zeroTaxRequest_def exampleRequest_def jsObject_def)
  have h3: "''tax'' \<in> set addEmployeeFields" "''tax'' \<in> set requiredFields"
    by (simp_all add: addEmployeeFields_def requiredFields_def)
  have h4: "isValidObjectId (query zeroTaxRequest ''userId'')"
    by code_simp
  have named: "filter (\<lambda>f. \<not> truthy (body zeroTaxRequest f)) addEmployeeFields =
                 [''lastName'', ''tax'']"
       "filter (\<lambda>f. \<not> truthy (body zeroTaxRequest f)) requiredFields = [''lastName'', ''tax'']"
    by (simp_all add: zeroTaxRequest_def exampleRequest_def fullBody_def jsObject_def
          addEmployeeFields_def requiredFields_def)
  from falsy_field_counts_as_missing [OF h1, of "''tax''" exampleEnv exampleStore] h2 h3 h4
  have "addEmployee exampleEnv exampleStore zeroTaxRequest =
          (Next (errorHandler 400 (''All fields are required! Missing fields: '' @
             join '', '' [''lastName'', ''tax''])), exampleStore)
      \<and> editEmployee exampleEnv exampleStore zeroTaxRequest =
          (Next (errorHandler 400 (''Missing fields: '' @
             join '', '' [''lastName'', ''tax''])), exampleStore)"
    by (simp only: named) simp
  then show ?thesis
    using h1 h2 h3 h4 by (simp add: errorHandler_def)
qed

text \<open>
  C10: the password is not one of the 14 fields whose presence add-employee checks. When
  an HR or admin principal supplies all 14 and no password, the hash of the absent
  secret is rejected, and the answer is the 500 error, not a 400 one, with the store
  unchanged.
\<close>

theorem addEmployee_password_absent:
  assumes "jsIncludes [JStr ''admin'', JStr ''hr''] (userRole req)"
    and "\<forall>f \<in> set addEmployeeFields. truthy (body req f)"
    and "body req ''password'' = JUndefined"
  shows "addEmployee e s req = (Next (errorHandler 500 ''Internal Server Error''), s)
       \<and> responseStatus (fst (addEmployee e s req)) = Some 500
       \<and> bcrypt_hash e (body req ''password'') = Inl IllegalArguments
       \<and> ''password'' \<notin> set addEmployeeFields \<and> length addEmployeeFields = 14"
proof -
  have none: "filter (\<lambda>f. \<not> truthy (body req f)) addEmployeeFields = []"
    using assms(2) by (simp add: filter_empty_conv)
  have resp: "addEmployee e s req = (Next (errorHandler 500 ''Internal Server Error''), s)"
    using assms(1,3) none by (simp add: addEmployee_def Let_def)
  have fields: "''password'' \<notin> set addEmployeeFields \<and> length addEmployeeFields = 14"
    by (simp add: addEmployeeFields_def)
  have hash: "bcrypt_hash e (body req ''password'') = Inl IllegalArguments"
    using assms(3) by simp
  show ?thesis
    using resp fields hash by (simp add: errorHandler_def)
qed

theorem addEmployee_password_absent_witness:
  "jsIncludes [JStr ''admin'', JStr ''hr''] (userRole noPasswordAdd)
   \<and> list_all (\<lambda>f. truthy (body noPasswordAdd f)) addEmployeeFields
   \<and> body noPasswordAdd ''password'' = JUndefined
   \<and> addEmployee exampleEnv exampleStore noPasswordAdd =
       (Next (Error 500 ''Internal Server Error''), exampleStore)"
proof -
  have h1: "jsIncludes [JStr ''admin'', JStr ''hr''] (userRole noPasswordAdd)"
    by (simp add: jsIncludes_def noPasswordAdd_def exampleRequest_def)
  have h2: "list_all (\<lambda>f. truthy (body noPasswordAdd f)) addEmployeeFields"
    by (simp add: noPasswordAdd_def exampleRequest_def fullBody_def jsObject_def
          addEmployeeFields_def)
  then have h2': "\<forall>f \<in> set addEmployeeFields. truthy (body noPasswordAdd f)"
    by (simp add: list_all_iff)
  have h3: "body noPasswordAdd ''password'' = JUndefined"
    by (simp add: noPasswordAdd_def exampleRequest_def fullBody_def jsObject_def)
  from addEmployee_password_absent [OF h1 h2' h3, of exampleEnv exampleStore]
  show ?thesis
    using h1 h2 h3 by (simp add: errorHandler_def)
qed

section \<open>Updating the status of a leave application\<close>

lemma find_Some_key: "find (\<lambda>d. idOf d = k) ds = Some x \<Longrightarrow> idOf x = k \<and> x \<in> set ds"
  by (induction ds) (auto split: if_splits)

lemma find_replaced:
  "find (\<lambda>d. idOf d = k) ds = Some x \<Longrightarrow> idOf y = k \<Longrightarrow>
   find (\<lambda>d. idOf d = k) (map (\<lambda>d. if idOf d = k then y else d) ds) = Some y"
  by (induction ds) (auto split: if_splits)

lemma replace_twice:
  "idOf y = k \<Longrightarrow>
   map (\<lambda>d. if idOf d = k then y else d) (map (\<lambda>d. if idOf d = k then y else d) ds) =
   map (\<lambda>d. if idOf d = k then y else d) ds"
  by (induction ds) auto

lemma findById_Some:
  "findById idOf ds v = Inr (Some x) \<Longrightarrow>
   \<exists>k. castObjectId v = Some k \<and> v \<noteq> JUndefined \<and> v \<noteq> JNull \<and> find (\<lambda>d. idOf d = k) ds = Some x"
  by (auto simp: findById_def split: if_splits option.splits)

text \<open>
  C4: for an existing leave application and an HR or admin principal, updating the
  status to \<^verbatim>\<open>Approved\<close> a second time, with the same comments, answers as the first
  call did and leaves the store as the first call left it. When the store accepts the
  save, both calls succeed with status 200 (the second is not rejected although the
  record is already terminal), and the record then has status \<^verbatim>\<open>Approved\<close> and the
  comments given, or the empty string when none were given.
\<close>

theorem approve_twice_idempotent:
  assumes role: "jsIncludes [JStr ''admin'', JStr ''hr''] (userRole req)"
    and found: "findById leaveId (leaveApplications s) (params req ''id'') = Inr (Some l)"
    and approved: "body req ''status'' = JStr ''Approved''"
  shows "let saved = l\<lparr>status := JStr ''Approved'',
                        hrComments := jsOr (body req ''hrComments'') (JStr [])\<rparr>;
             first = updateLeaveApplicationStatus e s req;
             second = updateLeaveApplicationStatus e (snd first) req
         in fst second = fst first \<and> snd second = snd first
          \<and> (\<not> rejectsLeaveSave e saved \<longrightarrow>
               fst first = Json 200 (LeaveBody ''Leave application Approvedd successfully.'' saved)
             \<and> findById leaveId (leaveApplications (snd first)) (params req ''id'')
                 = Inr (Some saved)
             \<and> status saved = JStr ''Approved''
             \<and> hrComments saved = jsOr (body req ''hrComments'') (JStr []))"
proof -
  define saved where "saved = l\<lparr>status := JStr ''Approved'',
                        hrComments := jsOr (body req ''hrComments'') (JStr [])\<rparr>"
  define s1 where "s1 = s\<lparr>leaveApplications :=
                          map (\<lambda>d. if leaveId d = leaveId saved then saved else d)
                            (leaveApplications s)\<rparr>"
  obtain k where k: "castObjectId (params req ''id'') = Some k"
      "params req ''id'' \<noteq> JUndefined" "params req ''id'' \<noteq> JNull"
      "find (\<lambda>d. leaveId d = k) (leaveApplications s) = Some l"
    using findById_Some [OF found] by blast
  have idl: "leaveId l = k"
    using find_Some_key [OF k(4)] by simp
  have ids: "leaveId saved = k"
    using idl by (simp add: saved_def)
  have again: "saved\<lparr>status := JStr ''Approved'',
                      hrComments := jsOr (body req ''hrComments'') (JStr [])\<rparr> = saved"
    by (simp add: saved_def)
  show ?thesis
  proof (cases "rejectsLeaveSave e saved")
    case True
    have first: "updateLeaveApplicationStatus e s req =
                   (Next (errorHandler 500 ''Internal server error''), s)"
      using role found approved True
      by (simp add: updateLeaveApplicationStatus_def saved_def Let_def)
    show ?thesis
      using True first by (simp add: Let_def saved_def)
  next
    case False
    have first: "updateLeaveApplicationStatus e s req =
                   (Json 200 (LeaveBody ''Leave application Approvedd successfully.'' saved), s1)"
      using role found approved False
      by (simp add: updateLeaveApplicationStatus_def saved_def s1_def Let_def)
    have found1: "findById leaveId (leaveApplications s1) (params req ''id'') = Inr (Some saved)"
      using k ids find_replaced [of leaveId k "leaveApplications s" l saved]
      by (simp add: findById_def s1_def)
    have same: "s1\<lparr>leaveApplications :=
                     map (\<lambda>d. if leaveId d = leaveId saved then saved else d)
                       (leaveApplications s1)\<rparr> = s1"
      using replace_twice [of leaveId saved k "leaveApplications s"] ids
      by (simp add: s1_def)
    have second: "updateLeaveApplicationStatus e s1 req =
                   (Json 200 (LeaveBody ''Leave application Approvedd successfully.'' saved), s1)"
      using role found1 approved False again same
      by (simp add: updateLeaveApplicationStatus_def Let_def)
    show ?thesis
      using first second found1 unfolding Let_def saved_def [symmetric]
      by (simp add: saved_def)
  qed
qed


theorem approve_twice_idempotent_witness:
  "jsIncludes [JStr ''admin'', JStr ''hr''] (userRole approveRequest)
   \<and> findById leaveId (leaveApplications exampleStore) (params approveRequest ''id'')
       = Inr (Some ashaLeave)
   \<and> body approveRequest ''status'' = JStr ''Approved''
   \<and> fst (updateLeaveApplicationStatus exampleEnv exampleStore approveRequest) =
       Json 200 (LeaveBody ''Leave application Approvedd successfully.''
         (ashaLeave\<lparr>status := JStr ''Approved'', hrComments := JStr ''Enjoy''\<rparr>))
   \<and> updateLeaveApplicationStatus exampleEnv
         (snd (updateLeaveApplicationStatus exampleEnv exampleStore approveRequest)) approveRequest
       = updateLeaveApplicationStatus exampleEnv exampleStore approveRequest"
proof -
  have h1: "jsIncludes [JStr ''admin'', JStr ''hr''] (userRole approveRequest)"
    by (simp add: jsIncludes_def approveRequest_def exampleRequest_def)
  have h2: "findById leaveId (leaveApplications exampleStore) (params approveRequest ''id'')
              = Inr (Some ashaLeave)"
    by code_simp
  have h3: "body approveRequest ''status'' = JStr ''Approved''"
    by (simp add: approveRequest_def exampleRequest_def jsObject_def)
  have c: "jsOr (body approveRequest ''hrComments'') (JStr []) = JStr ''Enjoy''"
    by (simp add: approveRequest_def exampleRequest_def jsObject_def jsOr_def)
  have ok: "\<not> rejectsLeaveSave exampleEnv l" for l
    by (simp add: exampleEnv_def)
  from approve_twice_idempotent [OF h1 h2 h3, of exampleEnv]
  show ?thesis
    using h1 h2 h3 ok by (simp add: Let_def c prod_eq_iff)
qed

section \<open>Editing an employee that does not exist\<close>

lemma replaced_member:
  "c \<in> set cs \<Longrightarrow> c' \<in> set (map (\<lambda>d. if idOf d = idOf c then c' else d) cs)"
  by (induction cs) auto

text \<open>
  C6: when an HR or admin principal edits with all 15 required fields present and a
  well-formed \<^verbatim>\<open>userId\<close> that matches no employee record, and the store accepts both
  writes, the answer is the 404 error, the employee records are unchanged, and yet the
  compensation upsert is committed: afterwards there is a compensation record with that
  \<^verbatim>\<open>employeeId\<close> and the submitted components, for an employee that does not exist; it
  is a new record when the identifier had none before.
\<close>

theorem editEmployee_unknown_id:
  assumes role: "jsIncludes [JStr ''admin'', JStr ''hr''] (userRole req)"
    and valid: "castObjectId (query req ''userId'') = Some k"
    and nobody: "find (\<lambda>u. uid u = k) (users s) = None"
    and present: "\<forall>f \<in> set requiredFields. truthy (body req f)"
    and accepted: "\<not> rejectsUserUpdate e (users s) k (profileOf (body req))"
                  "\<not> rejectsCTCUpsert e k (ctcFieldsOf (body req))"
  shows "fst (editEmployee e s req) = Next (errorHandler 404 ''Employee not found'')
       \<and> responseStatus (fst (editEmployee e s req)) = Some 404
       \<and> users (snd (editEmployee e s req)) = users s
       \<and> find (\<lambda>u. uid u = k) (users (snd (editEmployee e s req))) = None
       \<and> (\<exists>c \<in> set (ctcs (snd (editEmployee e s req))).
             employeeId c = k \<and> annualCTC c = body req ''annualCTC''
           \<and> monthlyInHand c = body req ''monthlyInHand''
           \<and> otherComponents c = componentsOf (body req))
       \<and> (find (\<lambda>c. employeeId c = k) (ctcs s) = None \<longrightarrow>
            ctcs (snd (editEmployee e s req)) =
              ctcs s @ [\<lparr>annualCTC = body req ''annualCTC'',
                         monthlyInHand = body req ''monthlyInHand'',
                         otherComponents = componentsOf (body req),
                         ctcId = newObjectId e s, employeeId = k,
                         effectiveDate = JUndefined\<rparr>])"
proof -
  have none: "filter (\<lambda>f. \<not> truthy (body req f)) requiredFields = []"
    using present by (simp add: filter_empty_conv)
  have vid: "isValidObjectId (query req ''userId'')"
    using valid by (simp add: isValidObjectId_def)
  have userWrite: "User_findByIdAndUpdate e (users s) (query req ''userId'') (profileOf (body req))
                     = Inr (None, users s)"
    using valid nobody accepted(1) by (simp add: User_findByIdAndUpdate_def)
  show ?thesis
  proof (cases "find (\<lambda>c. employeeId c = k) (ctcs s)")
    case None
    define c' where "c' = \<lparr>annualCTC = body req ''annualCTC'',
                         monthlyInHand = body req ''monthlyInHand'',
                         otherComponents = componentsOf (body req),
                         ctcId = newObjectId e s, employeeId = k,
                         effectiveDate = JUndefined\<rparr>"
    have ctcWrite: "CTC_findOneAndUpdate e s (query req ''userId'') (ctcFieldsOf (body req))
                      = Inr (c', ctcs s @ [c'])"
      using valid None accepted(2)
      by (simp add: CTC_findOneAndUpdate_def c'_def ctcFieldsOf_def Let_def)
    have res: "editEmployee e s req =
                 (Next (errorHandler 404 ''Employee not found''), s\<lparr>ctcs := ctcs s @ [c']\<rparr>)"
      using role vid none userWrite ctcWrite
      by (simp add: editEmployee_def Let_def)
    show ?thesis
      using res None nobody by (simp add: errorHandler_def c'_def)
  next
    case (Some c)
    define c' where "c' = c\<lparr>annualCTC := body req ''annualCTC'',
                            monthlyInHand := body req ''monthlyInHand'',
                            otherComponents := componentsOf (body req)\<rparr>"
    define cs' where "cs' = map (\<lambda>d. if ctcId d = ctcId c then c' else d) (ctcs s)"
    have ctcWrite: "CTC_findOneAndUpdate e s (query req ''userId'') (ctcFieldsOf (body req))
                      = Inr (c', cs')"
      using valid Some accepted(2)
      by (simp add: CTC_findOneAndUpdate_def c'_def cs'_def ctcFieldsOf_def Let_def)
    have res: "editEmployee e s req =
                 (Next (errorHandler 404 ''Employee not found''), s\<lparr>ctcs := cs'\<rparr>)"
      using role vid none userWrite ctcWrite
      by (simp add: editEmployee_def Let_def)
    have ck: "employeeId c = k" and cin: "c \<in> set (ctcs s)"
      using find_Some_key [OF Some] by simp_all
    have "c' \<in> set cs'"
      unfolding cs'_def using cin by (rule replaced_member)
    moreover have "employeeId c' = k \<and> annualCTC c' = body req ''annualCTC''
           \<and> monthlyInHand c' = body req ''monthlyInHand''
           \<and> otherComponents c' = componentsOf (body req)"
      using ck by (simp add: c'_def)
    ultimately have ex: "\<exists>c \<in> set cs'.
             employeeId c = k \<and> annualCTC c = body req ''annualCTC''
           \<and> monthlyInHand c = body req ''monthlyInHand''
           \<and> otherComponents c = componentsOf (body req)"
      by blast
    show ?thesis
      using res Some nobody ex by (simp add: errorHandler_def)
  qed
qed

theorem editEmployee_unknown_id_witness:
  "jsIncludes [JStr ''admin'', JStr ''hr''] (userRole editUnknown)
   \<and> castObjectId (query editUnknown ''userId'') = Some (exampleId 77)
   \<and> find (\<lambda>u. uid u = exampleId 77) (users exampleStore) = None
   \<and> list_all (\<lambda>f. truthy (body editUnknown f)) requiredFields
   \<and> fst (editEmployee exampleEnv exampleStore editUnknown) =
       Next (Error 404 ''Employee not found'')
   \<and> users (snd (editEmployee exampleEnv exampleStore editUnknown)) = [asha, ben, chen]
   \<and> ctcs (snd (editEmployee exampleEnv exampleStore editUnknown)) =
       [ashaCTC,
        \<lparr>annualCTC = JNum 900000, monthlyInHand = JNum 60000,
         otherComponents = componentsOf (jsObject fullBody),
         ctcId = exampleId 104, employeeId = exampleId 77, effectiveDate = JUndefined\<rparr>]"
proof -
  have h1: "jsIncludes [JStr ''admin'', JStr ''hr''] (userRole editUnknown)"
    by (simp add: jsIncludes_def editUnknown_def exampleRequest_def)
  have h2: "castObjectId (query editUnknown ''userId'') = Some (exampleId 77)"
    by code_simp
  have h3: "find (\<lambda>u. uid u = exampleId 77) (users exampleStore) = None"
    by code_simp
  have h4: "list_all (\<lambda>f. truthy (body editUnknown f)) requiredFields"
    by (simp add: editUnknown_def exampleRequest_def fullBody_def jsObject_def
          requiredFields_def)
  then have h4': "\<forall>f \<in> set requiredFields. truthy (body editUnknown f)"
    by (simp add: list_all_iff)
  have h5: "\<not> rejectsUserUpdate exampleEnv us k p" "\<not> rejectsCTCUpsert exampleEnv k f"
    for us k p f
    by (simp_all add: exampleEnv_def)
  have h6: "find (\<lambda>c. employeeId c = exampleId 77) (ctcs exampleStore) = None"
    by code_simp
  have b: "body editUnknown = jsObject fullBody"
    by (simp add: editUnknown_def exampleRequest_def)
  have v: "jsObject fullBody ''annualCTC'' = JNum 900000"
          "jsObject fullBody ''monthlyInHand'' = JNum 60000"
    by (simp_all add: fullBody_def jsObject_def)
  have n: "newObjectId exampleEnv exampleStore = exampleId 104"
    by (simp add: exampleEnv_def exampleStore_def)
  have st: "users exampleStore = [asha, ben, chen]" "ctcs exampleStore = [ashaCTC]"
    by (simp_all add: exampleStore_def)
  from editEmployee_unknown_id [OF h1 h2 h3 h4' h5] h6
  show ?thesis
    using h1 h2 h3 h4 by (simp add: errorHandler_def b v n st)
qed

section \<open>Attendance totals\<close>

lemma foldl_plus_sum_list:
  "foldl (\<lambda>total r. total + f r) (acc :: int) xs = acc + sum_list (map f xs)"
  by (induction xs arbitrary: acc) simp_all

text \<open>
  C8: for a \<^verbatim>\<open>userId\<close> that the store can cast, \<^verbatim>\<open>getAttendance\<close> answers 200 with
  the user's entries whose date lies in the resolved window, both ends included, with
  \<^verbatim>\<open>workedHours\<close> the sum of their durations (an entry without a duration adds 0),
  and with \<^verbatim>\<open>totalWorkingHours\<close> 40 for \<^verbatim>\<open>weekly\<close>, 160 for \<^verbatim>\<open>monthly\<close>, 1920 for
  \<^verbatim>\<open>yearly\<close> and 8 for \<^verbatim>\<open>today\<close>, for an absent period and for any other value.
\<close>

theorem getAttendance_totals:
  assumes "castObjectId (query req ''userId'') = Some k"
  shows "let period = jsOr (query req ''period'') (JStr ''today'');
             (startDate, endDate) = getDateRange now period;
             entries = filter (\<lambda>a. userId a = k \<and> startDate \<le> date a \<and> date a \<le> endDate)
                         (attendances s)
         in getAttendance now s req =
              Json 200 (AttendanceBody entries
                (sum_list (map (\<lambda>a. case duration a of None \<Rightarrow> 0 | Some d \<Rightarrow> d) entries))
                (if period = JStr ''weekly'' then 40
                 else if period = JStr ''monthly'' then 160
                 else if period = JStr ''yearly'' then 1920
                 else 8))"
proof -
  have notnull: "query req ''userId'' \<noteq> JUndefined" "query req ''userId'' \<noteq> JNull"
    using assms by auto
  have dur: "(\<lambda>total record. total + (case duration record of None \<Rightarrow> 0
                                     | Some d \<Rightarrow> if d \<noteq> 0 then d else 0)) =
             (\<lambda>total r. total + (case duration r of None \<Rightarrow> 0 | Some d \<Rightarrow> d))"
    by (auto simp: fun_eq_iff split: option.splits)
  show ?thesis
    using assms notnull
    by (simp add: getAttendance_def Attendance_find_def Let_def dur foldl_plus_sum_list
          split: prod.splits)
qed

theorem getAttendance_totals_witness:
  "castObjectId (query weeklyAttendance ''userId'') = Some (exampleId 1)
   \<and> getAttendance 1715769000000 exampleStore weeklyAttendance =
       Json 200 (AttendanceBody
         [\<lparr>userId = exampleId 1, date = 1715763600000, duration = Some 1\<rparr>,
          \<lparr>userId = exampleId 1, date = 1715590800000, duration = Some 8\<rparr>] 9 40)"
proof -
  have h1: "castObjectId (query weeklyAttendance ''userId'') = Some (exampleId 1)"
    by code_simp
  have period: "jsOr (query weeklyAttendance ''period'') (JStr ''today'') = JStr ''weekly''"
    by (simp add: weeklyAttendance_def exampleRequest_def jsObject_def jsOr_def)
  have range: "getDateRange 1715769000000 (JStr ''weekly'') = (1715472000000, 1715769000000)"
    by code_simp
  have entries: "filter (\<lambda>a. userId a = exampleId 1 \<and> 1715472000000 \<le> date a
                            \<and> date a \<le> 1715769000000) (attendances exampleStore) =
         [\<lparr>userId = exampleId 1, date = 1715763600000, duration = Some 1\<rparr>,
          \<lparr>userId = exampleId 1, date = 1715590800000, duration = Some 8\<rparr>]"
    by code_simp
  from getAttendance_totals [OF h1, of 1715769000000 exampleStore]
  show ?thesis
    using h1 by (simp add: Let_def period range entries del: One_nat_def)
qed

section \<open>Where the handlers depart from the spec\<close>

text \<open>
  The end of the window: the three named periods end at \<open>now\<close>; every other value of
  the period, \<^verbatim>\<open>today\<close> among them, gives midnight of the current day as the start and
  as the end. Midnight is at most a day before \<open>now\<close>.
\<close>

lemma getDateRange_unrecognized:
  "period \<noteq> JStr ''weekly'' \<Longrightarrow> period \<noteq> JStr ''monthly'' \<Longrightarrow> period \<noteq> JStr ''yearly'' \<Longrightarrow>
   getDateRange now period = (setHoursZero now, setHoursZero now)"
  by (simp add: getDateRange_def Let_def)

lemma getDateRange_recognized_end:
  "period = JStr ''weekly'' \<or> period = JStr ''monthly'' \<or> period = JStr ''yearly'' \<Longrightarrow>
   snd (getDateRange now period) = now"
  by (auto simp: getDateRange_def)

lemma setHoursZero_before: "setHoursZero now \<le> now \<and> now - setHoursZero now < msPerDay"
proof -
  have "now = now div msPerDay * msPerDay + now mod msPerDay"
    by simp
  moreover have "0 \<le> now mod msPerDay \<and> now mod msPerDay < msPerDay"
    by (simp add: msPerDay_def)
  ultimately show ?thesis
    unfolding setHoursZero_def dayNumber_def by linarith
qed

lemma getDay_range: "0 \<le> getDay t \<and> getDay t < 7"
  by (simp add: getDay_def)

text \<open>
  C7: the window of \<^verbatim>\<open>today\<close>. On Wednesday 15 May 2024 at 10:30 (time value
  1715769000000) the branch for \<^verbatim>\<open>today\<close> returns midnight of that day as the start
  and as the end of the window: \<^verbatim>\<open>setHours\<close> has moved \<^verbatim>\<open>now\<close> itself, so the window
  does not end at the current instant, as the window of \<^verbatim>\<open>weekly\<close> does. Asha's entry of
  09:00 that morning is then outside the window, and her attendance of today is empty.
\<close>

theorem today_window_ends_at_midnight:
  "getDateRange 1715769000000 (JStr ''today'') = (1715731200000, 1715731200000)
   \<and> snd (getDateRange 1715769000000 (JStr ''today'')) \<noteq> 1715769000000
   \<and> snd (getDateRange 1715769000000 (JStr ''weekly'')) = 1715769000000
   \<and> getAttendance 1715769000000 exampleStore todayAttendance = Json 200 (AttendanceBody [] 0 8)"
  by code_simp

text \<open>
  The search without a query, and with a query of ordinary characters: there the
  pattern is the query itself, and the result is the substring search of the spec.
\<close>

lemma search_without_query:
  "\<not> truthy (query req ''query'') \<Longrightarrow>
   search e s req = Json 400 (MessageBody ''Query parameter is required'')"
  by (simp add: search_def)

lemma matchHere_plain:
  "list_all (\<lambda>c. \<not> isRegexSyntax c) p \<Longrightarrow>
   matchHere p s \<longleftrightarrow> map toLowerAscii p = take (length p) (map toLowerAscii s)"
proof (induction p s rule: matchHere.induct)
  case (1 cs)
  then show ?case by simp
next
  case (2 p ps)
  then show ?case by simp
next
  case (3 p ps c cs)
  then have "p \<noteq> CHR ''.''"
    by (auto simp: isRegexSyntax_def)
  with 3 show ?case by auto
qed

lemma matchAnywhere_plain:
  "list_all (\<lambda>c. \<not> isRegexSyntax c) p \<Longrightarrow> matchAnywhere p s = containsIgnoringCase p s"
proof (induction s)
  case Nil
  then show ?case by (cases p) simp_all
next
  case (Cons c cs)
  then show ?case by (simp add: matchHere_plain)
qed

lemma regexField_plain:
  "list_all (\<lambda>c. \<not> isRegexSyntax c) p \<Longrightarrow> regexField (matchAnywhere p) v = fieldContains p v"
  by (cases v) (simp_all add: matchAnywhere_plain)

lemma search_plain_query:
  assumes "query req ''query'' = JStr p" and "p \<noteq> []"
    and "list_all (\<lambda>c. \<not> isRegexSyntax c) p"
  shows "search e s req =
           Json 200 (UsersBody
             (filter (\<lambda>u. role u = JStr ''employee'' \<and>
                           (fieldContains p (firstName u) \<or> fieldContains p (lastName u) \<or>
                            fieldContains p (email u)))
                (users s)))"
proof -
  have "list_all (\<lambda>c. c = CHR ''.'' \<or> \<not> isRegexSyntax c) p"
    using assms(3) by (simp add: list_all_iff)
  then have "RegExp e (JStr p) = Inr (matchAnywhere p)"
    by (simp add: RegExp_def)
  then show ?thesis
    using assms by (simp add: search_def regexField_plain)
qed

text \<open>
  C5: the query \<^verbatim>\<open>a.ha\<close>. The search compiles the query as a pattern, in which the
  dot stands for any character, so it returns Asha, although neither her first name, nor
  her last name, nor her email contains \<^verbatim>\<open>a.ha\<close> as a substring, in any case of the
  letters.
\<close>

theorem search_reads_query_as_pattern:
  "search exampleEnv exampleStore searchDot = Json 200 (UsersBody [asha])
   \<and> \<not> containsIgnoringCase ''a.ha'' ''Asha''
   \<and> \<not> containsIgnoringCase ''a.ha'' ''Rao''
   \<and> \<not> containsIgnoringCase ''a.ha'' ''asha@hyro.test''"
  by code_simp

text \<open>
  After any add-employee that succeeded, get-employee with the identifier it returned
  answers with the record as stored: the submitted profile fields, the default role and
  score, and the hash of the submitted secret.
\<close>

lemma find_append_new:
  "find P xs = None \<Longrightarrow> P x \<Longrightarrow> find P (xs @ [x]) = Some x"
  by (induction xs) (auto split: if_splits)

lemma find_None_iff_key: "find (\<lambda>d. idOf d = k) ds = None \<longleftrightarrow> k \<notin> set (map idOf ds)"
  by (induction ds) auto

lemma castObjectId_truthy: "castObjectId v = Some k \<Longrightarrow> truthy v \<and> v \<noteq> JUndefined \<and> v \<noteq> JNull"
  by (cases v) (auto split: if_splits)

lemma add_then_get:
  assumes add: "addEmployee e s req = (Json 201 (AddedBody m u c), s')"
    and role: "jsIncludes [JStr ''hr'', JStr ''admin''] (userRole greq)"
    and ident: "castObjectId (params greq ''id'') = Some (addedId u)"
  shows "\<exists>secret. body req ''password'' = JStr secret
         \<and> getEmployee s' greq =
             Json 200 (UserBody
               \<lparr>firstName = body req ''firstName'', lastName = body req ''lastName'',
                email = body req ''email'', position = body req ''position'',
                joiningDate = body req ''joiningDate'', role = JStr ''employee'',
                uid = addedId u, password = JStr (bcryptDigest e secret),
                totalPerformance = 0\<rparr>)"
proof -
  define doc where "doc secret = \<lparr>firstName = body req ''firstName'', lastName = body req ''lastName'',
                email = body req ''email'', position = body req ''position'',
                joiningDate = body req ''joiningDate'', role = JStr ''employee'',
                uid = newObjectId e s, password = JStr (bcryptDigest e secret),
                totalPerformance = 0\<rparr>" for secret
  from add obtain secret where pw: "body req ''password'' = JStr secret"
    by (cases "body req ''password''")
       (auto simp: addEmployee_def Let_def split: if_splits)
  from add pw have created: "User_create e s (doc secret) = Inr (doc secret, s\<lparr>users := users s @ [doc secret]\<rparr>)"
    by (auto simp: addEmployee_def Let_def doc_def User_create_def split: if_splits sum.splits)
  from add pw created have u: "addedId u = newObjectId e s" and s': "users s' = users s @ [doc secret]"
    by (auto simp: addEmployee_def Let_def doc_def CTC_create_def split: if_splits sum.splits)
  from created have fresh: "newObjectId e s \<notin> set (map uid (users s))"
    by (auto simp: User_create_def doc_def split: if_splits)
  then have "find (\<lambda>d. uid d = newObjectId e s) (users s) = None"
    by (simp add: find_None_iff_key)
  then have found: "find (\<lambda>d. uid d = newObjectId e s) (users s') = Some (doc secret)"
    unfolding s' by (rule find_append_new) (simp add: doc_def)
  have "getEmployee s' greq = Json 200 (UserBody (doc secret))"
    using role ident castObjectId_truthy [OF ident] found u
    by (simp add: getEmployee_def findById_def isValidObjectId_def)
  then show ?thesis
    using pw u by (auto simp: doc_def)
qed

text \<open>
  C2: the password in the get-employee response. The HR lead adds Dana; the response
  gives her identifier and public fields, without the password. Reading the record back
  with that identifier returns the submitted profile fields, and with them the field
  \<^verbatim>\<open>password\<close>, holding the hash of the secret: \<^verbatim>\<open>getEmployee\<close> sends the stored
  document as it is, where \<^verbatim>\<open>getEmployees\<close> selects it without the password.
\<close>

theorem getEmployee_returns_password:
  "fst (addEmployee exampleEnv exampleStore addDana) =
     Json 201 (AddedBody ''Employee added successfully!''
       \<lparr>addedId = exampleId 104, addedFirstName = JStr ''Dana'', addedLastName = JStr ''Iyer'',
        addedEmail = JStr ''dana@hyro.test'', addedRole = JStr ''employee'',
        addedPosition = JStr ''Designer''\<rparr>
       \<lparr>annualCTC = JNum 900000, monthlyInHand = JNum 60000,
        otherComponents = componentsOf (jsObject fullBody), ctcId = exampleId 105,
        employeeId = exampleId 104, effectiveDate = JStr ''2024-06-03''\<rparr>)
   \<and> getEmployee (snd (addEmployee exampleEnv exampleStore addDana)) getDana =
     Json 200 (UserBody
       \<lparr>firstName = JStr ''Dana'', lastName = JStr ''Iyer'', email = JStr ''dana@hyro.test'',
        position = JStr ''Designer'', joiningDate = JStr ''2024-06-03'',
        role = JStr ''employee'', uid = exampleId 104, password = JStr ''$2a$10$terc3s'',
        totalPerformance = 0\<rparr>)"
  by code_simp

end
